theory Spec2Isabelle
  imports Main
begin

section \<open>JavaScript strings and arrays\<close>

text \<open>
  A JavaScript string is modelled as a \<open>string\<close> (a list of characters), an array as a
  list. \<open>split_on sep s\<close> is \<^verbatim>\<open>s.split(sep)\<close> for a one-character separator: the
  pieces between the separators, in order; the result always has at least one piece
  (\<^verbatim>\<open>"".split(":")\<close> is \<^verbatim>\<open>[""]\<close>). \<open>join sep pieces\<close> is \<^verbatim>\<open>pieces.join(sep)\<close>.
  \<open>pieces[0]\<close> is written \<open>hd pieces\<close> and \<^verbatim>\<open>pieces.slice(1)\<close> is \<open>tl pieces\<close>; the
  array a split returns is never empty (lemma \<open>split_on_nonempty\<close>).
\<close>

fun split_on :: "'a \<Rightarrow> 'a list \<Rightarrow> 'a list list" where
  "split_on sep [] = [[]]"
| "split_on sep (c # cs) =
     (if c = sep then [] # split_on sep cs
      else (case split_on sep cs of
              [] \<Rightarrow> [[c]]
            | piece # pieces \<Rightarrow> (c # piece) # pieces))"

fun join :: "'a list \<Rightarrow> 'a list list \<Rightarrow> 'a list" where
  "join sep [] = []"
| "join sep [piece] = piece"
| "join sep (piece # pieces) = piece @ sep @ join sep pieces"

section \<open>Helm overrides\<close>

record NameValuePair =
  name :: string
  val :: string

text \<open>
  \<^verbatim>\<open>HelmRenderEngine.getOverrideValues\<close> (run.ts, lines 46 to 59). The body of the
  \<^verbatim>\<open>forEach\<close> callback is \<open>overrideValue_of\<close>; the loop pushes one pair per token, in
  order, onto an array that starts empty.
\<close>

definition overrideValue_of :: "string \<Rightarrow> NameValuePair" where
  "overrideValue_of arg =
     (let overrideInput = split_on CHR '':'' arg;
          overrideName = hd overrideInput;
          overrideValue = join '':'' (tl overrideInput)
      in \<lparr>name = overrideName, val = overrideValue\<rparr>)"

definition getOverrideValues :: "string list \<Rightarrow> NameValuePair list" where
  "getOverrideValues overrides =
     foldl (\<lambda>overrideValues arg. overrideValues @ [overrideValue_of arg]) [] overrides"

section \<open>Errors, results and effects\<close>

text \<open>
  A thrown JavaScript error is a value: \<open>Error msg\<close> is \<^verbatim>\<open>Error(msg)\<close>, the only kind
  run.ts throws itself; \<open>TypeError\<close> and \<open>SyntaxError\<close> are what the language raises on a
  property read of \<^verbatim>\<open>null\<close> and what \<^verbatim>\<open>JSON.parse\<close> raises. A computation that may throw
  returns \<open>error + 'a\<close>, with \<open>Inl\<close> the thrown error.
\<close>

datatype error = Error string | TypeError string | SyntaxError string

definition bindE :: "error + 'a \<Rightarrow> ('a \<Rightarrow> error + 'b) \<Rightarrow> error + 'b" where
  "bindE r f = (case r of Inl e \<Rightarrow> Inl e | Inr x \<Rightarrow> f x)"

text \<open>
  \<^verbatim>\<open>ExecResult\<close>, the value \<^verbatim>\<open>utilities.execCommand\<close> resolves to; run.ts reads only its
  \<^verbatim>\<open>stdout\<close>.
\<close>

record ExecResult =
  stdout :: string
  stderr :: string

text \<open>
  The values \<^verbatim>\<open>JSON.parse\<close> returns, and \<^verbatim>\<open>undefined\<close>, which a property read can give.
  run.ts does two things with a parsed number: it tests it for truth and it hands it to
  \<^verbatim>\<open>parseInt\<close>, which converts it to a string first. So \<open>JNum s\<close> is a number held as \<open>s\<close>,
  the text \<^verbatim>\<open>String\<close> gives for it: the decimal digits of an integer of magnitude below
  \<open>10^21\<close>, an exponent form such as \<open>1e+21\<close> from there on, \<open>1.5\<close> for a fraction.
  \<open>JObj\<close> lists the members of an object in the order of the parsed text.
\<close>

datatype js_value =
    JUndefined
  | JNull
  | JBool bool
  | JNum string
  | JStr string
  | JArr "js_value list"
  | JObj "(string \<times> js_value) list"

text \<open>
  The world outside run.ts, as far as run.ts reads it. run.ts imports all of these and
  defines none, so each is a parameter of the model:
  \<^item> \<open>getInput name required\<close> is \<^verbatim>\<open>core.getInput(name, {required: required})\<close>;
  \<^item> \<open>RUNNER_TEMP\<close> is \<^verbatim>\<open>process.env['RUNNER_TEMP']\<close>, \<open>None\<close> when the variable is unset;
  \<^item> \<open>getCurrentTime k\<close> is what the call number \<open>k\<close> of \<^verbatim>\<open>utilities.getCurrentTime()\<close>
    in this run returns (a clock reading, a number of milliseconds), counting from 0;
  \<^item> \<open>getHelmPath\<close>, \<open>getKubectlPath\<close>, \<open>getKomposePath\<close> resolve the renderer binaries;
  \<^item> \<open>execCommand path args\<close> is what \<^verbatim>\<open>utilities.execCommand(path, args, options)\<close>
    resolves to or rejects with;
  \<^item> \<open>core_log msg\<close> is the call \<^verbatim>\<open>core.log(msg)\<close>: \<open>Some e\<close> when it throws \<open>e\<close>;
  \<^item> \<open>path_exists p\<close> says whether \<open>p\<close> exists on disk;
  \<^item> \<open>writeFileSync p d\<close> is \<^verbatim>\<open>fs.writeFileSync(p, d)\<close>: \<open>Some e\<close> when it throws \<open>e\<close>;
  \<^item> \<open>JSON_parse\<close> is \<^verbatim>\<open>JSON.parse\<close>;
  \<^item> \<open>format_s e\<close> is the text \<^verbatim>\<open>util.format\<close> puts in place of \<^verbatim>\<open>%s\<close> for a caught
    error \<open>e\<close>.
\<close>

record host =
  getInput :: "string \<Rightarrow> bool \<Rightarrow> error + string"
  RUNNER_TEMP :: "string option"
  getCurrentTime :: "nat \<Rightarrow> nat"
  getHelmPath :: "error + string"
  getKubectlPath :: "error + string"
  getKomposePath :: "error + string"
  execCommand :: "string \<Rightarrow> string list \<Rightarrow> error + ExecResult"
  core_log :: "string \<Rightarrow> error option"
  path_exists :: "string \<Rightarrow> bool"
  writeFileSync :: "string \<Rightarrow> string \<Rightarrow> error option"
  JSON_parse :: "string \<Rightarrow> error + js_value"
  format_s :: "error \<Rightarrow> string"

text \<open>
  What a run has done so far: how many times it has read the clock, the external
  commands it has invoked (executable and arguments, in order), the files it has written
  and the outputs it has reported with \<^verbatim>\<open>core.setOutput\<close>. \<^verbatim>\<open>core.debug\<close> and
  \<^verbatim>\<open>console.log\<close> only print and are left out.
\<close>

record world =
  clock_reads :: nat
  invoked :: "(string \<times> string list) list"
  written :: "(string \<times> string) list"
  outputs :: "(string \<times> string) list"

type_synonym 'a action = "world \<Rightarrow> (error + 'a) \<times> world"

definition ret :: "'a \<Rightarrow> 'a action" where
  "ret x = (\<lambda>w. (Inr x, w))"

definition throw :: "error \<Rightarrow> 'a action" where
  "throw e = (\<lambda>w. (Inl e, w))"

definition lift :: "error + 'a \<Rightarrow> 'a action" where
  "lift r = (\<lambda>w. (r, w))"

text \<open>Sequencing with \<^verbatim>\<open>await\<close> or \<^verbatim>\<open>;\<close>: a throw skips the rest, keeping what was done.\<close>

definition bindA :: "'a action \<Rightarrow> ('a \<Rightarrow> 'b action) \<Rightarrow> 'b action" where
  "bindA m f = (\<lambda>w. case m w of (Inl e, w') \<Rightarrow> (Inl e, w') | (Inr x, w') \<Rightarrow> f x w')"

text \<open>\<^verbatim>\<open>try { m } catch (err) { handler err }\<close>.\<close>

definition try_catch :: "'a action \<Rightarrow> (error \<Rightarrow> 'a action) \<Rightarrow> 'a action" where
  "try_catch m handler =
     (\<lambda>w. case m w of (Inl err, w') \<Rightarrow> handler err w' | (Inr x, w') \<Rightarrow> (Inr x, w'))"

definition exec :: "host \<Rightarrow> string \<Rightarrow> string list \<Rightarrow> ExecResult action" where
  "exec h path args =
     (\<lambda>w. (execCommand h path args, w\<lparr>invoked := invoked w @ [(path, args)]\<rparr>))"

definition readClock :: "host \<Rightarrow> nat action" where
  "readClock h = (\<lambda>w. (Inr (getCurrentTime h (clock_reads w)), w\<lparr>clock_reads := Suc (clock_reads w)\<rparr>))"

definition writeFile :: "host \<Rightarrow> string \<Rightarrow> string \<Rightarrow> unit action" where
  "writeFile h p d =
     (\<lambda>w. case writeFileSync h p d of
            Some e \<Rightarrow> (Inl e, w)
          | None \<Rightarrow> (Inr (), w\<lparr>written := written w @ [(p, d)]\<rparr>))"

definition setOutput :: "string \<Rightarrow> string \<Rightarrow> unit action" where
  "setOutput key v = (\<lambda>w. (Inr (), w\<lparr>outputs := outputs w @ [(key, v)]\<rparr>))"

definition logA :: "host \<Rightarrow> string \<Rightarrow> unit action" where
  "logA h msg = (\<lambda>w. case core_log h msg of Some e \<Rightarrow> (Inl e, w) | None \<Rightarrow> (Inr (), w))"

section \<open>Numbers as text\<close>

text \<open>
  \<^verbatim>\<open>n.toString()\<close> for a non-negative integer \<open>n\<close> (a timestamp): its decimal digits.
\<close>

definition digit_char :: "nat \<Rightarrow> char" where
  "digit_char d = ''0123456789'' ! d"

fun toString :: "nat \<Rightarrow> string" where
  "toString n =
     (if n < 10 then [digit_char n]
      else toString (n div 10) @ [digit_char (n mod 10)])"

declare toString.simps [simp del]


text \<open>
  \<^verbatim>\<open>String(v)\<close>, the conversion \<^verbatim>\<open>parseInt\<close> applies to its argument first. In an array
  \<^verbatim>\<open>null\<close> and \<^verbatim>\<open>undefined\<close> elements print as the empty string.
\<close>

fun js_toString :: "js_value \<Rightarrow> string" where
  "js_toString JUndefined = ''undefined''"
| "js_toString JNull = ''null''"
| "js_toString (JBool b) = (if b then ''true'' else ''false'')"
| "js_toString (JNum s) = s"
| "js_toString (JStr s) = s"
| "js_toString (JArr vs) =
     join '','' (map (\<lambda>v. if v = JNull \<or> v = JUndefined then [] else js_toString v) vs)"
| "js_toString (JObj members) = ''[object Object]''"

text \<open>
  \<^verbatim>\<open>parseInt(string)\<close> with no radix, as ECMAScript defines it: skip leading white space,
  read a sign, read \<^verbatim>\<open>0x\<close> or \<^verbatim>\<open>0X\<close> as the mark of radix 16, then take the longest run
  of digits of the radix; no digit at all gives \<^verbatim>\<open>NaN\<close>, here \<open>None\<close>. Characters
  are code units below 256, so the white space is tab, line feed, vertical tab, form
  feed, carriage return, space and no-break space. The result is kept exact; the
  rounding of a long digit string to a double never moves it across the integers 1 and
  14 it is compared with.
\<close>

definition is_space :: "char \<Rightarrow> bool" where
  "is_space c = (of_char c \<in> {9, 10, 11, 12, 13, 32, 160 :: nat})"

definition is_digit :: "nat \<Rightarrow> char \<Rightarrow> bool" where
  "is_digit R c =
     (let k = (of_char c :: nat) in
      (48 \<le> k \<and> k \<le> 57) \<or>
      (R = 16 \<and> ((97 \<le> k \<and> k \<le> 102) \<or> (65 \<le> k \<and> k \<le> 70))))"

definition digit_val :: "char \<Rightarrow> nat" where
  "digit_val c =
     (let k = (of_char c :: nat) in
      if k \<le> 57 then k - 48 else if 97 \<le> k then k - 87 else k - 55)"

definition parseInt_string :: "string \<Rightarrow> int option" where
  "parseInt_string inputString =
     (let S = dropWhile is_space inputString;
          negative = (S \<noteq> [] \<and> hd S = CHR ''-'');
          S = (if S \<noteq> [] \<and> (hd S = CHR ''+'' \<or> hd S = CHR ''-'') then tl S else S);
          hex = (take 2 S = ''0x'' \<or> take 2 S = ''0X'');
          R = (if hex then 16 else 10);
          S = (if hex then drop 2 S else S);
          Z = takeWhile (is_digit R) S
      in if Z = [] then None
         else let mathInt = int (foldl (\<lambda>acc c. acc * R + digit_val c) 0 Z)
              in Some (if negative then - mathInt else mathInt))"

definition parseInt :: "js_value \<Rightarrow> int option" where
  "parseInt v = parseInt_string (js_toString v)"

text \<open>\<^verbatim>\<open>x >= k\<close> for a \<^verbatim>\<open>parseInt\<close> result: every comparison with \<^verbatim>\<open>NaN\<close> is false.\<close>

definition js_ge :: "int option \<Rightarrow> int \<Rightarrow> bool" where
  "js_ge x k = (case x of None \<Rightarrow> False | Some n \<Rightarrow> k \<le> n)"

section \<open>Values and property reads\<close>

text \<open>
  \<open>truthy v\<close> is the test \<^verbatim>\<open>if (v)\<close>; a number is false when it is zero, which prints
  as \<open>0\<close> with either sign, or \<^verbatim>\<open>NaN\<close>. \<open>member v key\<close> is \<^verbatim>\<open>v.key\<close> for a \<open>v\<close> that is
  neither \<^verbatim>\<open>null\<close> nor \<^verbatim>\<open>undefined\<close>, for the keys run.ts reads (\<^verbatim>\<open>clientVersion\<close>,
  \<^verbatim>\<open>major\<close>, \<^verbatim>\<open>minor\<close>), none of which a string, a number, a boolean or an array has:
  of an object's members with that key the last one parsed counts. \<open>get_prop\<close> adds the
  \<open>TypeError\<close> that a property read of \<^verbatim>\<open>null\<close> or \<^verbatim>\<open>undefined\<close> throws.
\<close>

fun truthy :: "js_value \<Rightarrow> bool" where
  "truthy JUndefined = False"
| "truthy JNull = False"
| "truthy (JBool b) = b"
| "truthy (JNum s) = (s \<noteq> ''0'' \<and> s \<noteq> ''NaN'')"
| "truthy (JStr s) = (s \<noteq> [])"
| "truthy (JArr vs) = True"
| "truthy (JObj members) = True"

fun member :: "js_value \<Rightarrow> string \<Rightarrow> js_value" where
  "member (JObj members) key =
     (case map_of (rev members) key of None \<Rightarrow> JUndefined | Some v \<Rightarrow> v)"
| "member v key = JUndefined"

definition get_prop :: "js_value \<Rightarrow> string \<Rightarrow> error + js_value" where
  "get_prop v key =
     (if v = JNull \<or> v = JUndefined
      then Inl (TypeError (''Cannot read property '' @ key @ '' of '' @ js_toString v))
      else Inr (member v key))"

text \<open>
  \<^verbatim>\<open>ioUtil.exists\<close> of @actions/io is declared \<^verbatim>\<open>async\<close>: a call returns a promise of the
  answer, not the answer. \<open>Promise r\<close> is a promise that settles to \<open>r\<close>. A promise is an
  object, and every object is truthy, whatever it settles to.
\<close>

datatype 'a promise = Promise "error + 'a"

definition ioUtil_exists :: "host \<Rightarrow> string \<Rightarrow> bool promise" where
  "ioUtil_exists h fsPath = Promise (Inr (path_exists h fsPath))"

fun truthy_promise :: "'a promise \<Rightarrow> bool" where
  "truthy_promise (Promise r) = True"

section \<open>Paths\<close>

text \<open>
  \<^verbatim>\<open>path.join\<close> of Node.js on a POSIX host, for two arguments: the non-empty arguments
  joined by \<open>/\<close>, then normalized. \<open>normalizeString\<close> walks the segments between the
  slashes keeping a stack (here with its top first): an empty segment and \<open>.\<close> are
  dropped, \<open>..\<close> removes the segment before it, and where there is none to remove it is
  kept in a relative path and dropped in an absolute one.
\<close>

definition normalize_step :: "bool \<Rightarrow> string list \<Rightarrow> string \<Rightarrow> string list" where
  "normalize_step allowAboveRoot res seg =
     (if seg = [] \<or> seg = ''.'' then res
      else if seg = ''..'' then
        (if res \<noteq> [] \<and> hd res \<noteq> ''..'' then tl res
         else if allowAboveRoot then ''..'' # res else res)
      else seg # res)"

definition normalizeString :: "string \<Rightarrow> bool \<Rightarrow> string" where
  "normalizeString path allowAboveRoot =
     join ''/'' (rev (foldl (normalize_step allowAboveRoot) [] (split_on CHR ''/'' path)))"

definition normalize :: "string \<Rightarrow> string" where
  "normalize path =
     (if path = [] then ''.''
      else
        let isAbsolute = (hd path = CHR ''/'');
            trailingSeparator = (last path = CHR ''/'');
            p = normalizeString path (\<not> isAbsolute)
        in if p = [] then (if isAbsolute then ''/'' else if trailingSeparator then ''./'' else ''.'')
           else (if isAbsolute then ''/'' else []) @ p @ (if trailingSeparator then ''/'' else []))"

definition path_join :: "string \<Rightarrow> string \<Rightarrow> string" where
  "path_join a b =
     (let parts = filter (\<lambda>arg. arg \<noteq> []) [a, b]
      in if parts = [] then ''.'' else normalize (join ''/'' parts))"

section \<open>The render engines\<close>

text \<open>
  \<^verbatim>\<open>RenderEngine.getTemplatePath\<close> (run.ts, lines 18 to 26). \<^verbatim>\<open>!!tempDirectory\<close> holds
  when the variable is set to a non-empty string.
\<close>

definition getTemplatePath :: "host \<Rightarrow> string action" where
  "getTemplatePath h =
     (case RUNNER_TEMP h of
        None \<Rightarrow> throw (Error ''Unable to create temp directory.'')
      | Some tempDirectory \<Rightarrow>
          if tempDirectory \<noteq> [] then
            bindA (readClock h) (\<lambda>t.
              ret (path_join tempDirectory (''baked-template-'' @ toString t @ ''.yaml'')))
          else throw (Error ''Unable to create temp directory.''))"

text \<open>
  \<^verbatim>\<open>HelmRenderEngine.getTemplateArgs\<close> (run.ts, lines 61 to 98). \<^verbatim>\<open>args.push(x)\<close> is
  \<open>args @ [x]\<close>, a \<^verbatim>\<open>forEach\<close> is a \<open>foldl\<close>, and the line feed is \<open>CHR 0x0A\<close>.
\<close>

definition getTemplateArgs :: "host \<Rightarrow> error + string list" where
  "getTemplateArgs h =
     bindE (getInput h ''releaseName'' False) (\<lambda>releaseName.
     bindE (getInput h ''helmChart'' True) (\<lambda>chartPath.
     let args = [];
         args = args @ [''template''];
         args = args @ [chartPath];
         args = (if releaseName \<noteq> [] then (args @ [''--name'']) @ [releaseName] else args)
     in
     bindE (getInput h ''overrideFiles'' False) (\<lambda>overrideFilesInput.
     let args =
           (if overrideFilesInput \<noteq> [] then
              let overrideFiles = split_on (CHR 0x0A) overrideFilesInput
              in if length overrideFiles > 0
                 then foldl (\<lambda>args file. (args @ [''-f'']) @ [file]) args overrideFiles
                 else args
            else args)
     in
     bindE (getInput h ''overrides'' False) (\<lambda>overridesInput.
     let args =
           (if overridesInput \<noteq> [] then
              let overrides = split_on (CHR 0x0A) overridesInput
              in if length overrides > 0
                 then let overrideValues = getOverrideValues overrides
                      in foldl (\<lambda>args overrideValue.
                                  (args @ [''--set'']) @ [name overrideValue @ ''='' @ val overrideValue])
                               args overrideValues
                 else args
            else args)
     in Inr args))))"

datatype RenderEngine = HelmRenderEngine | KomposeRenderEngine | KustomizeRenderEngine

text \<open>\<^verbatim>\<open>HelmRenderEngine.bake\<close> (run.ts, lines 30 to 44).\<close>

definition helm_bake :: "host \<Rightarrow> unit action" where
  "helm_bake h =
     bindA (logA h ''in HelmRenderEngine'') (\<lambda>_.
     bindA (lift (getHelmPath h)) (\<lambda>helmPath.
     bindA (lift (getTemplateArgs h)) (\<lambda>args.
     bindA (exec h helmPath args) (\<lambda>result.
     bindA (getTemplatePath h) (\<lambda>pathToBakedManifest.
     bindA (writeFile h pathToBakedManifest (stdout result)) (\<lambda>_.
     setOutput ''manifestsBundle'' pathToBakedManifest))))))"

text \<open>
  \<^verbatim>\<open>KomposeRenderEngine.bake\<close> (run.ts, lines 102 to 113). The test of line 104 negates
  the promise \<^verbatim>\<open>ioUtil.exists\<close> returns: the call is not awaited.
\<close>

definition kompose_bake :: "host \<Rightarrow> unit action" where
  "kompose_bake h =
     bindA (lift (getInput h ''dockerComposeFile'' True)) (\<lambda>dockerComposeFilePath.
     if \<not> truthy_promise (ioUtil_exists h dockerComposeFilePath) then
       throw (Error (''Docker compose file path '' @ dockerComposeFilePath
                     @ '' does not exist. Please check the path specified''))
     else
       bindA (lift (getKomposePath h)) (\<lambda>komposePath.
       bindA (getTemplatePath h) (\<lambda>pathToBakedManifest.
       bindA (exec h komposePath
                [''convert'', ''-f'', dockerComposeFilePath, ''-o'', pathToBakedManifest]) (\<lambda>_.
       setOutput ''manifestsBundle'' pathToBakedManifest))))"

text \<open>
  \<^verbatim>\<open>KustomizeRenderEngine.validateKustomize\<close> (run.ts, lines 137 to 148).
  \<open>clientVersion_ok\<close> is the condition of line 141.
\<close>

definition clientVersion_ok :: "js_value \<Rightarrow> bool" where
  "clientVersion_ok clientVersion =
     (truthy clientVersion
      \<and> js_ge (parseInt (member clientVersion ''major'')) 1
      \<and> js_ge (parseInt (member clientVersion ''minor'')) 14)"

definition validateKustomize :: "host \<Rightarrow> string \<Rightarrow> unit action" where
  "validateKustomize h kubectlPath =
     bindA (exec h kubectlPath [''version'', ''--client=true'', ''-o'', ''json'']) (\<lambda>result.
     if stdout result \<noteq> [] then
       bindA (lift (JSON_parse h (stdout result))) (\<lambda>parsed.
       bindA (lift (get_prop parsed ''clientVersion'')) (\<lambda>clientVersion.
       if clientVersion_ok clientVersion then ret ()
       else throw (Error ''kubectl client version equal to v1.14 or higher is required to use kustomize features'')))
     else ret ())"

text \<open>
  \<^verbatim>\<open>KustomizeRenderEngine.bake\<close> (run.ts, lines 117 to 135). \<open>kustomize_render\<close> is the
  part after the version gate (lines 120 to 134); line 130 reads the input
  \<^verbatim>\<open>kustomizationPath\<close> a second time, for the command line it prints.
\<close>

definition kustomize_render :: "host \<Rightarrow> string \<Rightarrow> unit action" where
  "kustomize_render h kubectlPath =
     bindA (lift (getInput h ''kustomizationPath'' True)) (\<lambda>kustomizationPath.
     if \<not> truthy_promise (ioUtil_exists h kustomizationPath) then
       throw (Error (''kustomizationPath '' @ kustomizationPath
                     @ '' does not exist. Please check whether file exists or not.''))
     else
       bindA (lift (getInput h ''kustomizationPath'' False)) (\<lambda>_.
       bindA (exec h kubectlPath [''kustomize'', kustomizationPath]) (\<lambda>result.
       bindA (getTemplatePath h) (\<lambda>pathToBakedManifest.
       bindA (writeFile h pathToBakedManifest (stdout result)) (\<lambda>_.
       setOutput ''manifestsBundle'' pathToBakedManifest)))))"

definition kustomize_bake :: "host \<Rightarrow> unit action" where
  "kustomize_bake h =
     bindA (lift (getKubectlPath h)) (\<lambda>kubectlPath.
     bindA (validateKustomize h kubectlPath) (\<lambda>_.
     kustomize_render h kubectlPath))"

fun bake :: "host \<Rightarrow> RenderEngine \<Rightarrow> unit action" where
  "bake h HelmRenderEngine = helm_bake h"
| "bake h KomposeRenderEngine = kompose_bake h"
| "bake h KustomizeRenderEngine = kustomize_bake h"

section \<open>The orchestrator\<close>

text \<open>
  \<^verbatim>\<open>run\<close> (run.ts, lines 151 to 176). \<open>selectEngine\<close> is the \<^verbatim>\<open>switch\<close> of lines 156 to
  168.
\<close>

definition selectEngine :: "string \<Rightarrow> error + RenderEngine" where
  "selectEngine renderType =
     (if renderType = ''helm2'' then Inr HelmRenderEngine
      else if renderType = ''kompose'' then Inr KomposeRenderEngine
      else if renderType = ''kustomize'' then Inr KustomizeRenderEngine
      else Inl (Error ''Unknown render engine''))"

text \<open>The \<^verbatim>\<open>catch\<close> block of lines 173 to 175.\<close>

definition bake_failed :: "host \<Rightarrow> error \<Rightarrow> unit action" where
  "bake_failed h err = throw (Error (''Failed to run bake action. Error: '' @ format_s h err))"

definition run :: "host \<Rightarrow> unit action" where
  "run h =
     bindA (lift (getInput h ''renderEngine'' True)) (\<lambda>renderType.
     bindA (lift (selectEngine renderType)) (\<lambda>renderEngine.
     try_catch (bake h renderEngine) (bake_failed h)))"

text \<open>Two calls of \<^verbatim>\<open>getTemplatePath\<close> in one run, one after the other.\<close>

definition twoTemplatePaths :: "host \<Rightarrow> (string \<times> string) action" where
  "twoTemplatePaths h =
     bindA (getTemplatePath h) (\<lambda>first.
     bindA (getTemplatePath h) (\<lambda>second.
     ret (first, second)))"

section \<open>Example hosts\<close>

text \<open>
  \<^verbatim>\<open>core.getInput\<close> of @actions/core over a table of the inputs supplied: an input that
  is not supplied reads as the empty string, and as an error when it is required.
\<close>

definition getInput_of :: "(string \<times> string) list \<Rightarrow> string \<Rightarrow> bool \<Rightarrow> error + string" where
  "getInput_of inputs key required =
     (let v = (case map_of inputs key of None \<Rightarrow> [] | Some v \<Rightarrow> v)
      in if required \<and> v = [] then Inl (Error (''Input required and not supplied: '' @ key))
         else Inr v)"

text \<open>
  A runner with the three binaries installed, a scratch directory, a clock that stands
  at one millisecond for the whole run, no file on disk, and renderers that print a
  manifest; \<^verbatim>\<open>kubectl version\<close> prints \<open>kubectl_version_stdout\<close>, which parses to client
  version 1.18.
\<close>

definition kubectl_version_stdout :: string where
  "kubectl_version_stdout = ''{clientVersion: {major: 1, minor: 18}}''"

definition String_of_error :: "error \<Rightarrow> string" where
  "String_of_error e =
     (case e of Error m \<Rightarrow> ''Error: '' @ m
              | TypeError m \<Rightarrow> ''TypeError: '' @ m
              | SyntaxError m \<Rightarrow> ''SyntaxError: '' @ m)"

definition example_host :: "(string \<times> string) list \<Rightarrow> host" where
  "example_host inputs =
     \<lparr>getInput = getInput_of inputs,
      RUNNER_TEMP = Some ''/home/runner/work/_temp'',
      getCurrentTime = (\<lambda>k. 1600000000000),
      getHelmPath = Inr ''/usr/local/bin/helm'',
      getKubectlPath = Inr ''/usr/local/bin/kubectl'',
      getKomposePath = Inr ''/usr/local/bin/kompose'',
      execCommand = (\<lambda>path args.
         if args = [''version'', ''--client=true'', ''-o'', ''json'']
         then Inr \<lparr>stdout = kubectl_version_stdout, stderr = []\<rparr>
         else Inr \<lparr>stdout = ''kind: Deployment'', stderr = []\<rparr>),
      core_log = (\<lambda>msg. None),
      path_exists = (\<lambda>p. False),
      writeFileSync = (\<lambda>p d. None),
      JSON_parse = (\<lambda>s.
         if s = kubectl_version_stdout
         then Inr (JObj [(''clientVersion'', JObj [(''major'', JStr ''1''), (''minor'', JStr ''18'')])])
         else Inl (SyntaxError ''Unexpected token'')),
      format_s = String_of_error\<rparr>"

text \<open>The same host with renderers that fail; \<^verbatim>\<open>kubectl version\<close> still answers.\<close>

definition renderer_fails :: "host \<Rightarrow> host" where
  "renderer_fails h =
     h\<lparr>execCommand := (\<lambda>path args.
          if args = [''version'', ''--client=true'', ''-o'', ''json'']
          then execCommand h path args
          else Inl (Error ''exit code 1''))\<rparr>"

definition world0 :: world where
  "world0 = \<lparr>clock_reads = 0, invoked = [], written = [], outputs = []\<rparr>"

section \<open>The specification's words\<close>

text \<open>
  The entries of a newline-separated input: an input that is not supplied (the empty
  string) has none; otherwise they are the lines of the input, in order.
\<close>

definition input_entries :: "string \<Rightarrow> string list" where
  "input_entries inp = (if inp = [] then [] else split_on (CHR 0x0A) inp)"

text \<open>
  A path segment that normalization leaves alone: not empty, without a slash, and
  neither \<open>.\<close> nor \<open>..\<close>.
\<close>

definition plain_segment :: "string \<Rightarrow> bool" where
  "plain_segment s = (s \<noteq> [] \<and> CHR ''/'' \<notin> set s \<and> s \<noteq> ''.'' \<and> s \<noteq> ''..'')"

text \<open>The decimal digits.\<close>

definition is_dec :: "char \<Rightarrow> bool" where
  "is_dec c = (c \<in> set ''0123456789'')"

text \<open>The file name of a baked manifest for the clock reading \<open>t\<close>.\<close>

definition baked_template_name :: "nat \<Rightarrow> string" where
  "baked_template_name t = ''baked-template-'' @ toString t @ ''.yaml''"

section \<open>Splitting and joining\<close>

lemma split_on_nonempty: "split_on sep s \<noteq> []"
  by (induction s) (auto split: list.splits)

lemma hd_split_on: "hd (split_on sep s) = takeWhile (\<lambda>c. c \<noteq> sep) s"
  by (induction s) (auto split: list.splits simp: split_on_nonempty)

lemma join_split_on: "join [sep] (split_on sep s) = s"
proof (induction s)
  case Nil
  show ?case by simp
next
  case (Cons c cs)
  obtain piece pieces where sp: "split_on sep cs = piece # pieces"
    using split_on_nonempty [of sep cs] by (cases "split_on sep cs") auto
  show ?case
  proof (cases "c = sep")
    case True
    with Cons sp show ?thesis by simp
  next
    case False
    with Cons sp show ?thesis by (cases pieces) auto
  qed
qed

lemma join_tl_split_on:
  "join [sep] (tl (split_on sep s)) = tl (dropWhile (\<lambda>c. c \<noteq> sep) s)"
  by (induction s) (auto split: list.splits simp: split_on_nonempty join_split_on)

lemma foldl_snoc_map: "foldl (\<lambda>acc x. acc @ [f x]) acc0 xs = acc0 @ map f xs"
  by (induction xs arbitrary: acc0) auto

lemma foldl_push2:
  "foldl (\<lambda>acc x. acc @ [a, f x]) acc0 xs = acc0 @ concat (map (\<lambda>x. [a, f x]) xs)"
  by (induction xs arbitrary: acc0) auto

lemma overrideValue_of_name:
  "name (overrideValue_of arg) = takeWhile (\<lambda>c. c \<noteq> CHR '':'') arg"
  by (simp add: overrideValue_of_def Let_def hd_split_on)

lemma overrideValue_of_val:
  "val (overrideValue_of arg) = tl (dropWhile (\<lambda>c. c \<noteq> CHR '':'') arg)"
  by (simp add: overrideValue_of_def Let_def join_tl_split_on)

lemma getOverrideValues_map: "getOverrideValues overrides = map overrideValue_of overrides"
  by (simp add: getOverrideValues_def foldl_snoc_map)

section \<open>Override parsing\<close>

text \<open>
  Claim C2. Every override token is cut at its first colon only: the name is the part of
  the token before the first \<open>:\<close> (the whole token when it has none) and the value is
  everything after that colon, further colons included. \<open>image.tag:v1.2.3\<close> gives the
  name \<open>image.tag\<close> and the value \<open>v1.2.3\<close>; \<open>replicaCount:3\<close> gives \<open>replicaCount\<close>
  and \<open>3\<close>; and \<open>getOverrideValues\<close> parses each token of its input so, in order.
\<close>

theorem override_split_first_colon:
  "name (overrideValue_of arg) = takeWhile (\<lambda>c. c \<noteq> CHR '':'') arg
   \<and> val (overrideValue_of arg) = tl (dropWhile (\<lambda>c. c \<noteq> CHR '':'') arg)
   \<and> getOverrideValues overrides = map overrideValue_of overrides
   \<and> overrideValue_of ''image.tag:v1.2.3'' = \<lparr>name = ''image.tag'', val = ''v1.2.3''\<rparr>
   \<and> overrideValue_of ''replicaCount:3'' = \<lparr>name = ''replicaCount'', val = ''3''\<rparr>
   \<and> overrideValue_of ''url:http://host:80/x'' = \<lparr>name = ''url'', val = ''http://host:80/x''\<rparr>"
proof -
  have n: "name (overrideValue_of arg) = takeWhile (\<lambda>c. c \<noteq> CHR '':'') arg"
    by (rule overrideValue_of_name)
  have v: "val (overrideValue_of arg) = tl (dropWhile (\<lambda>c. c \<noteq> CHR '':'') arg)"
    by (rule overrideValue_of_val)
  have m: "getOverrideValues overrides = map overrideValue_of overrides"
    by (rule getOverrideValues_map)
  have e1: "overrideValue_of ''image.tag:v1.2.3'' = \<lparr>name = ''image.tag'', val = ''v1.2.3''\<rparr>"
    by (simp add: overrideValue_of_def Let_def)
  have e2: "overrideValue_of ''replicaCount:3'' = \<lparr>name = ''replicaCount'', val = ''3''\<rparr>"
    by (simp add: overrideValue_of_def Let_def)
  have e3: "overrideValue_of ''url:http://host:80/x'' = \<lparr>name = ''url'', val = ''http://host:80/x''\<rparr>"
    by (simp add: overrideValue_of_def Let_def)
  from n v m e1 e2 e3 show ?thesis by blast
qed

section \<open>Helm arguments\<close>

text \<open>
  Claim C1. When the four Helm inputs are read without error, the argument list built
  for the Helm invocation is exactly, in order: \<open>template\<close>, the chart path; then, if a
  release name is supplied, \<open>--name\<close> and the release name; then, for each entry of the
  newline-split override-files input in input order, \<open>-f\<close> and that file; then, for
  each entry of the newline-split overrides input in input order, \<open>--set\<close> and
  \<open>name=value\<close>, the token cut at its first colon. An optional input that is not
  supplied (the empty string) has no entries.
\<close>

theorem helm_args_order:
  assumes "getInput h ''releaseName'' False = Inr releaseName"
      and "getInput h ''helmChart'' True = Inr chartPath"
      and "getInput h ''overrideFiles'' False = Inr overrideFilesInput"
      and "getInput h ''overrides'' False = Inr overridesInput"
  shows "getTemplateArgs h =
           Inr ([''template'', chartPath]
                @ (if releaseName = [] then [] else [''--name'', releaseName])
                @ concat (map (\<lambda>file. [''-f'', file]) (input_entries overrideFilesInput))
                @ concat (map (\<lambda>token. [''--set'',
                                 takeWhile (\<lambda>c. c \<noteq> CHR '':'') token @ ''=''
                                 @ tl (dropWhile (\<lambda>c. c \<noteq> CHR '':'') token)])
                              (input_entries overridesInput)))"
  using assms
  by (simp add: getTemplateArgs_def bindE_def Let_def input_entries_def foldl_push2
      getOverrideValues_map overrideValue_of_name overrideValue_of_val comp_def
      split_on_nonempty)

text \<open>The theorem at a run with a release name, two override files and two overrides.\<close>

theorem helm_args_order_witness:
  "getTemplateArgs (example_host [(''helmChart'', ''./chart''), (''releaseName'', ''rel''),
       (''overrideFiles'', ''a.yaml'' @ [CHR 0x0A] @ ''b.yaml''),
       (''overrides'', ''image.tag:v1:2'' @ [CHR 0x0A] @ ''replicaCount:3'')])
   = Inr [''template'', ''./chart'', ''--name'', ''rel'', ''-f'', ''a.yaml'', ''-f'', ''b.yaml'',
          ''--set'', ''image.tag=v1:2'', ''--set'', ''replicaCount=3'']"
  using helm_args_order [of "example_host [(''helmChart'', ''./chart''), (''releaseName'', ''rel''),
       (''overrideFiles'', ''a.yaml'' @ [CHR 0x0A] @ ''b.yaml''),
       (''overrides'', ''image.tag:v1:2'' @ [CHR 0x0A] @ ''replicaCount:3'')]"
       "''rel''" "''./chart''" "''a.yaml'' @ [CHR 0x0A] @ ''b.yaml''"
       "''image.tag:v1:2'' @ [CHR 0x0A] @ ''replicaCount:3''"]
  by (simp add: example_host_def getInput_of_def input_entries_def)


section \<open>Sequencing and what a bake reports\<close>


lemma bindA_lift_Inr: "bindA (lift (Inr x)) f w = f x w"
  by (simp add: bindA_def lift_def)

lemma bindA_lift_Inl: "bindA (lift (Inl e)) f w = (Inl e, w)"
  by (simp add: bindA_def lift_def)








section \<open>Decimal digits\<close>


lemma toString_digit: "n < 10 \<Longrightarrow> toString n = [digit_char n]"
  by (simp add: toString.simps)

lemma toString_more:
  "\<not> n < 10 \<Longrightarrow> toString n = toString (n div 10) @ [digit_char (n mod 10)]"
  by (subst toString.simps) simp

lemma digit_char_cases:
  "d < 10 \<Longrightarrow> d = 0 \<or> d = 1 \<or> d = 2 \<or> d = 3 \<or> d = 4 \<or> d = 5 \<or> d = 6 \<or> d = 7 \<or> d = 8 \<or> d = (9::nat)"
  by arith

lemma digit_char_dec: "d < 10 \<Longrightarrow> is_dec (digit_char d)"
  using digit_char_cases [of d] by (auto simp: is_dec_def digit_char_def)

lemma digit_val_digit_char: "d < 10 \<Longrightarrow> digit_val (digit_char d) = d"
  using digit_char_cases [of d] by (auto simp: digit_val_def digit_char_def)

lemma digit_char_inj:
  assumes "a < 10" "b < 10" "digit_char a = digit_char b"
  shows "a = b"
proof -
  have "a = digit_val (digit_char a)" using assms(1) by (simp add: digit_val_digit_char)
  also have "\<dots> = digit_val (digit_char b)" using assms(3) by simp
  also have "\<dots> = b" using assms(2) by (simp add: digit_val_digit_char)
  finally show ?thesis .
qed

lemma is_dec_facts:
  "is_dec c \<Longrightarrow> is_digit R c \<and> \<not> is_space c \<and> c \<noteq> CHR ''-'' \<and> c \<noteq> CHR ''+''
     \<and> c \<noteq> CHR ''x'' \<and> c \<noteq> CHR ''X'' \<and> c \<noteq> CHR ''/'' \<and> c \<noteq> CHR ''.''"
  by (auto simp: is_dec_def is_digit_def is_space_def)

lemma toString_dec: "\<forall>c \<in> set (toString n). is_dec c"
proof (induction n rule: toString.induct)
  case (1 n)
  show ?case
  proof (cases "n < 10")
    case True
    then show ?thesis by (simp add: toString_digit digit_char_dec)
  next
    case False
    with 1 show ?thesis by (simp add: toString_more digit_char_dec)
  qed
qed


lemma toString_value: "foldl (\<lambda>acc c. acc * 10 + digit_val c) 0 (toString n) = n"
proof (induction n rule: toString.induct)
  case (1 n)
  show ?case
  proof (cases "n < 10")
    case True
    then show ?thesis by (simp add: toString_digit digit_val_digit_char)
  next
    case False
    with 1 show ?thesis by (simp add: toString_more digit_val_digit_char)
  qed
qed

lemma toString_inj:
  assumes "toString a = toString b"
  shows "a = b"
proof -
  have "a = foldl (\<lambda>acc c. acc * 10 + digit_val c) 0 (toString a)"
    by (simp add: toString_value)
  also have "\<dots> = foldl (\<lambda>acc c. acc * 10 + digit_val c) 0 (toString b)"
    using assms by simp
  also have "\<dots> = b" by (simp add: toString_value)
  finally show ?thesis .
qed




section \<open>Joining a file name to a directory\<close>


lemma split_on_append_sep:
  "split_on sep (a @ sep # b) = split_on sep a @ split_on sep b"
  by (induction a) (auto split: list.splits simp: split_on_nonempty)

lemma split_on_no_sep: "sep \<notin> set s \<Longrightarrow> split_on sep s = [s]"
  by (induction s) auto

lemma join_snoc:
  "join sep (xs @ [x]) = (if xs = [] then x else join sep xs @ sep @ x)"
  by (induction sep xs rule: join.induct) auto

lemma split_on_join:
  "segs \<noteq> [] \<Longrightarrow> \<forall>s \<in> set segs. sep \<notin> set s \<Longrightarrow> split_on sep (join [sep] segs) = segs"
proof (induction segs rule: induct_list012)
  case 1
  then show ?case by simp
next
  case (2 x)
  then show ?case by (simp add: split_on_no_sep)
next
  case (3 x y zs)
  then show ?case
    using split_on_append_sep [of sep x "join [sep] (y # zs)"]
    by (simp add: split_on_no_sep)
qed

lemma foldl_normalize_step_plain:
  "\<forall>s \<in> set segs. plain_segment s \<Longrightarrow>
     foldl (normalize_step allowAbove) res segs = rev segs @ res"
  by (induction segs arbitrary: res) (auto simp: normalize_step_def plain_segment_def)

lemma path_join_plain:
  assumes "d \<noteq> []" and "plain_segment f"
  shows "path_join d f =
           (if hd d = CHR ''/'' then ''/'' else [])
           @ join ''/'' (rev (foldl (normalize_step (hd d \<noteq> CHR ''/'')) [] (split_on CHR ''/'' d)) @ [f])"
proof -
  from assms(2) have f: "f \<noteq> []" "CHR ''/'' \<notin> set f" "f \<noteq> ''.''" "f \<noteq> ''..''"
    by (simp_all add: plain_segment_def)
  let ?p = "d @ CHR ''/'' # f"
  let ?st = "foldl (normalize_step (hd d \<noteq> CHR ''/'')) [] (split_on CHR ''/'' d)"
  have joined: "join ''/'' (filter (\<lambda>arg. arg \<noteq> []) [d, f]) = ?p"
    using assms(1) f(1) by simp
  have hdp: "hd ?p = hd d" using assms(1) by (cases d) auto
  have lastp: "last ?p \<noteq> CHR ''/''"
  proof
    assume "last ?p = CHR ''/''"
    then have "last f = CHR ''/''" using f(1) by simp
    moreover have "last f \<in> set f" using f(1) by (rule last_in_set)
    ultimately show False using f(2) by simp
  qed
  have segs: "split_on CHR ''/'' ?p = split_on CHR ''/'' d @ [f]"
    by (simp add: split_on_append_sep split_on_no_sep f(2))
  have st: "foldl (normalize_step (hd d \<noteq> CHR ''/'')) [] (split_on CHR ''/'' ?p) = f # ?st"
    using f by (simp add: segs normalize_step_def)
  have ns: "normalizeString ?p (hd d \<noteq> CHR ''/'') = join ''/'' (rev ?st @ [f])"
    by (simp add: normalizeString_def st)
  have ne: "join ''/'' (rev ?st @ [f]) \<noteq> []"
    using f(1) by (simp add: join_snoc)
  have "path_join d f = normalize ?p"
    using assms(1) f(1) by (simp add: path_join_def Let_def)
  also have "\<dots> = (if hd d = CHR ''/'' then ''/'' else []) @ join ''/'' (rev ?st @ [f])"
    using ne lastp by (simp add: normalize_def Let_def hdp ns)
  finally show ?thesis .
qed

lemma path_join_inj:
  assumes "d \<noteq> []" and "plain_segment f" and "plain_segment g"
  shows "path_join d f = path_join d g \<longleftrightarrow> f = g"
  using assms by (auto simp: path_join_plain join_snoc)

lemma path_join_clean:
  assumes "segs \<noteq> []" and "\<forall>s \<in> set segs. plain_segment s" and "plain_segment f"
  shows "path_join (CHR ''/'' # join ''/'' segs) f = CHR ''/'' # join ''/'' segs @ ''/'' @ f"
proof -
  let ?d = "CHR ''/'' # join ''/'' segs"
  have nosep: "\<forall>s \<in> set segs. CHR ''/'' \<notin> set s"
    using assms(2) by (simp add: plain_segment_def)
  have sp: "split_on CHR ''/'' ?d = [] # segs"
    using split_on_join [OF assms(1) nosep] by simp
  have st: "foldl (normalize_step (hd ?d \<noteq> CHR ''/'')) [] (split_on CHR ''/'' ?d) = rev segs"
    unfolding sp
    using foldl_normalize_step_plain [OF assms(2), of False "[]"]
    by (simp add: normalize_step_def)
  have "path_join ?d f = (if hd ?d = CHR ''/'' then ''/'' else []) @ join ''/'' (rev (rev segs) @ [f])"
    using path_join_plain [of ?d f] assms(3) unfolding st by blast
  then show ?thesis
    using assms(1) by (simp add: join_snoc)
qed

section \<open>Evaluating a run\<close>
lemmas eval_simps =
  example_host_def getInput_of_def world0_def String_of_error_def kubectl_version_stdout_def
  bindA_def bindE_def lift_def ret_def throw_def try_catch_def exec_def readClock_def
  writeFile_def setOutput_def logA_def
  run_def selectEngine_def bake_failed_def helm_bake_def kompose_bake_def kustomize_bake_def
  kustomize_render_def validateKustomize_def getTemplatePath_def getTemplateArgs_def
  ioUtil_exists_def get_prop_def clientVersion_ok_def parseInt_def parseInt_string_def
  js_ge_def is_space_def is_digit_def digit_val_def
  path_join_def normalize_def normalizeString_def normalize_step_def
  toString_digit toString_more digit_char_def Let_def

section \<open>Engine selection\<close>

text \<open>
  Claim C3. Engine selection maps the \<open>renderEngine\<close> input one to one to the three
  engines: \<open>helm2\<close> selects the Helm engine, \<open>kompose\<close> the Kompose engine and
  \<open>kustomize\<close> the Kustomize engine, each of which \<open>run\<close> then bakes inside its
  \<^verbatim>\<open>try\<close> block; for every other string the selection fails with the error
  \<open>Unknown render engine\<close>, no engine is selected and the run has done nothing.
\<close>

theorem engine_selection:
  assumes "getInput h ''renderEngine'' True = Inr renderType"
  shows "run h w =
           (if renderType = ''helm2'' then try_catch (bake h HelmRenderEngine) (bake_failed h) w
            else if renderType = ''kompose'' then try_catch (bake h KomposeRenderEngine) (bake_failed h) w
            else if renderType = ''kustomize'' then try_catch (bake h KustomizeRenderEngine) (bake_failed h) w
            else (Inl (Error ''Unknown render engine''), w))
         \<and> (selectEngine renderType = Inr HelmRenderEngine \<longleftrightarrow> renderType = ''helm2'')
         \<and> (selectEngine renderType = Inr KomposeRenderEngine \<longleftrightarrow> renderType = ''kompose'')
         \<and> (selectEngine renderType = Inr KustomizeRenderEngine \<longleftrightarrow> renderType = ''kustomize'')
         \<and> (selectEngine renderType = Inl (Error ''Unknown render engine'')
              \<longleftrightarrow> renderType \<notin> {''helm2'', ''kompose'', ''kustomize''})"
  using assms
  by (simp add: run_def selectEngine_def bindA_lift_Inr bindA_lift_Inl)

text \<open>The theorem at \<open>helm3\<close>, which names no engine.\<close>

theorem engine_selection_witness:
  "run (example_host [(''renderEngine'', ''helm3'')]) world0
     = (Inl (Error ''Unknown render engine''), world0)
   \<and> selectEngine ''helm3'' = Inl (Error ''Unknown render engine'')"
  using engine_selection [of "example_host [(''renderEngine'', ''helm3'')]" "''helm3''" world0]
  by (simp add: example_host_def getInput_of_def)

text \<open>
  Claim C10. An unknown \<open>renderEngine\<close> value throws before the \<^verbatim>\<open>try\<close> block around
  the bake: \<open>run\<close> fails with the bare error \<open>Unknown render engine\<close>, which is not a
  result of the \<^verbatim>\<open>catch\<close> block that wraps the errors raised inside a bake.
\<close>

theorem unknown_engine_not_wrapped:
  assumes "getInput h ''renderEngine'' True = Inr renderType"
      and "renderType \<notin> {''helm2'', ''kompose'', ''kustomize''}"
  shows "run h w = (Inl (Error ''Unknown render engine''), w)
         \<and> (\<forall>err w'. fst (run h w) \<noteq> fst (bake_failed h err w'))"
  using assms
  by (simp add: run_def selectEngine_def bindA_lift_Inr bindA_lift_Inl bake_failed_def throw_def)

text \<open>The theorem at \<open>Helm2\<close>: the names are case sensitive.\<close>

theorem unknown_engine_not_wrapped_witness:
  "run (example_host [(''renderEngine'', ''Helm2'')]) world0
     = (Inl (Error ''Unknown render engine''), world0)"
  using unknown_engine_not_wrapped [of "example_host [(''renderEngine'', ''Helm2'')]" "''Helm2''" world0]
  by (simp add: example_host_def getInput_of_def)

section \<open>Failures of a bake\<close>







section \<open>The existence check\<close>

text \<open>
  Claim C4 says that a Kompose or Kustomize bake whose input path does not exist fails
  with an error naming the path, before the renderer is invoked. The code does not do
  that: at the two runs below the path does not exist, the renderer is invoked with it
  all the same, and the error of the run is the renderer's. The test of lines 104 and
  121 is made on a promise, which is never false.
\<close>

theorem missing_input_path_reaches_renderer:
  "path_exists (renderer_fails (example_host
       [(''renderEngine'', ''kompose''), (''dockerComposeFile'', ''docker-compose.yml'')]))
     ''docker-compose.yml'' = False
   \<and> run (renderer_fails (example_host
       [(''renderEngine'', ''kompose''), (''dockerComposeFile'', ''docker-compose.yml'')])) world0
     = (Inl (Error ''Failed to run bake action. Error: Error: exit code 1''),
        \<lparr>clock_reads = 1,
         invoked = [(''/usr/local/bin/kompose'',
                     [''convert'', ''-f'', ''docker-compose.yml'', ''-o'',
                      ''/home/runner/work/_temp/baked-template-1600000000000.yaml''])],
         written = [], outputs = []\<rparr>)
   \<and> path_exists (renderer_fails (example_host
       [(''renderEngine'', ''kustomize''), (''kustomizationPath'', ''overlays/prod'')]))
     ''overlays/prod'' = False
   \<and> run (renderer_fails (example_host
       [(''renderEngine'', ''kustomize''), (''kustomizationPath'', ''overlays/prod'')])) world0
     = (Inl (Error ''Failed to run bake action. Error: Error: exit code 1''),
        \<lparr>clock_reads = 0,
         invoked = [(''/usr/local/bin/kubectl'', [''version'', ''--client=true'', ''-o'', ''json'']),
                    (''/usr/local/bin/kubectl'', [''kustomize'', ''overlays/prod''])],
         written = [], outputs = []\<rparr>)"
  by (simp add: renderer_fails_def eval_simps)

section \<open>The version gate\<close>

text \<open>
  Claim C9. When \<^verbatim>\<open>kubectl version --client=true -o json\<close> prints nothing, the version
  gate checks nothing and raises nothing: it returns having only invoked the command,
  and the Kustomize bake goes on with the rest of its steps as after a gate that passed.
\<close>

theorem empty_stdout_skips_gate:
  assumes "getKubectlPath h = Inr kubectlPath"
      and "execCommand h kubectlPath [''version'', ''--client=true'', ''-o'', ''json''] = Inr result"
      and "stdout result = []"
  shows "validateKustomize h kubectlPath w
           = (Inr (), w\<lparr>invoked := invoked w
                 @ [(kubectlPath, [''version'', ''--client=true'', ''-o'', ''json''])]\<rparr>)
         \<and> kustomize_bake h w
           = kustomize_render h kubectlPath
               (w\<lparr>invoked := invoked w
                 @ [(kubectlPath, [''version'', ''--client=true'', ''-o'', ''json''])]\<rparr>)"
  using assms
  by (simp add: validateKustomize_def kustomize_bake_def bindA_def exec_def ret_def lift_def)

text \<open>The theorem at a Kustomize run whose \<^verbatim>\<open>kubectl\<close> prints nothing.\<close>

theorem empty_stdout_skips_gate_witness:
  "run ((example_host [(''renderEngine'', ''kustomize''), (''kustomizationPath'', ''overlays/prod'')])
          \<lparr>execCommand := (\<lambda>path args. Inr \<lparr>stdout = [], stderr = []\<rparr>),
           JSON_parse := (\<lambda>s. Inl (SyntaxError ''Unexpected end of JSON input''))\<rparr>) world0
     = (Inr (),
        \<lparr>clock_reads = 1,
         invoked = [(''/usr/local/bin/kubectl'', [''version'', ''--client=true'', ''-o'', ''json'']),
                    (''/usr/local/bin/kubectl'', [''kustomize'', ''overlays/prod''])],
         written = [(''/home/runner/work/_temp/baked-template-1600000000000.yaml'', [])],
         outputs = [(''manifestsBundle'',
                     ''/home/runner/work/_temp/baked-template-1600000000000.yaml'')]\<rparr>)"
  using empty_stdout_skips_gate [of
      "(example_host [(''renderEngine'', ''kustomize''), (''kustomizationPath'', ''overlays/prod'')])
          \<lparr>execCommand := (\<lambda>path args. Inr \<lparr>stdout = [], stderr = []\<rparr>),
           JSON_parse := (\<lambda>s. Inl (SyntaxError ''Unexpected end of JSON input''))\<rparr>"
      "''/usr/local/bin/kubectl''" "\<lparr>stdout = [], stderr = []\<rparr>" world0]
  by (simp add: example_host_def getInput_of_def world0_def String_of_error_def
      run_def selectEngine_def bake_failed_def try_catch_def
      bindA_def lift_def ret_def throw_def exec_def readClock_def writeFile_def setOutput_def
      kustomize_render_def getTemplatePath_def ioUtil_exists_def
      path_join_def normalize_def normalizeString_def normalize_step_def
      toString_digit toString_more digit_char_def Let_def)







section \<open>The path of the baked manifest\<close>

lemma baked_template_name_plain: "plain_segment (baked_template_name t)"
proof -
  have "CHR ''/'' \<notin> set (toString t)"
    using toString_dec [of t] is_dec_facts by blast
  then show ?thesis
    by (simp add: plain_segment_def baked_template_name_def)
qed

lemma baked_template_name_inj: "baked_template_name a = baked_template_name b \<longleftrightarrow> a = b"
  by (auto simp: baked_template_name_def dest: toString_inj)

lemma getTemplatePath_present:
  "RUNNER_TEMP h = Some d \<Longrightarrow> d \<noteq> [] \<Longrightarrow>
     getTemplatePath h w =
       (Inr (path_join d (baked_template_name (getCurrentTime h (clock_reads w)))),
        w\<lparr>clock_reads := Suc (clock_reads w)\<rparr>)"
  by (simp add: getTemplatePath_def bindA_def readClock_def ret_def baked_template_name_def)

text \<open>
  Claim C6. \<open>getTemplatePath\<close> reads the scratch directory from \<open>RUNNER_TEMP\<close>. When the
  variable is unset (or empty) it throws \<open>Unable to create temp directory.\<close> and
  returns no path. When it holds a directory \<open>d\<close>, the call reads the clock once and
  returns \<^verbatim>\<open>path.join\<close> of \<open>d\<close> and the file name \<open>baked-template-<timestamp>.yaml\<close>,
  a single path segment; for an absolute \<open>d\<close> in normal form (segments that are not
  empty, \<open>.\<close> or \<open>..\<close>, and no slash at the end) that path is \<open>d\<close>, a slash and the
  file name.
\<close>

theorem template_path:
  "(RUNNER_TEMP h = None \<or> RUNNER_TEMP h = Some [] \<longrightarrow>
      getTemplatePath h w = (Inl (Error ''Unable to create temp directory.''), w))
   \<and> (RUNNER_TEMP h = Some d \<and> d \<noteq> [] \<longrightarrow>
      getTemplatePath h w =
        (Inr (path_join d (baked_template_name (getCurrentTime h (clock_reads w)))),
         w\<lparr>clock_reads := Suc (clock_reads w)\<rparr>)
      \<and> baked_template_name (getCurrentTime h (clock_reads w))
          = ''baked-template-'' @ toString (getCurrentTime h (clock_reads w)) @ ''.yaml''
      \<and> plain_segment (baked_template_name (getCurrentTime h (clock_reads w)))
      \<and> (segs \<noteq> [] \<and> list_all plain_segment segs \<and> d = CHR ''/'' # join ''/'' segs \<longrightarrow>
            path_join d (baked_template_name (getCurrentTime h (clock_reads w)))
              = d @ ''/'' @ baked_template_name (getCurrentTime h (clock_reads w))))"
proof (intro conjI impI)
  assume "RUNNER_TEMP h = None \<or> RUNNER_TEMP h = Some []"
  then show "getTemplatePath h w = (Inl (Error ''Unable to create temp directory.''), w)"
    by (auto simp: getTemplatePath_def throw_def)
next
  assume "RUNNER_TEMP h = Some d \<and> d \<noteq> []"
  then show "getTemplatePath h w =
        (Inr (path_join d (baked_template_name (getCurrentTime h (clock_reads w)))),
         w\<lparr>clock_reads := Suc (clock_reads w)\<rparr>)"
    by (simp add: getTemplatePath_present)
next
  show "baked_template_name (getCurrentTime h (clock_reads w))
          = ''baked-template-'' @ toString (getCurrentTime h (clock_reads w)) @ ''.yaml''"
    by (simp add: baked_template_name_def)
next
  show "plain_segment (baked_template_name (getCurrentTime h (clock_reads w)))"
    by (rule baked_template_name_plain)
next
  assume "segs \<noteq> [] \<and> list_all plain_segment segs \<and> d = CHR ''/'' # join ''/'' segs"
  then show "path_join d (baked_template_name (getCurrentTime h (clock_reads w)))
              = d @ ''/'' @ baked_template_name (getCurrentTime h (clock_reads w))"
    using path_join_clean [of segs "baked_template_name (getCurrentTime h (clock_reads w))"]
      baked_template_name_plain
    by (simp add: list_all_iff)
qed

text \<open>The theorem at a runner without \<open>RUNNER_TEMP\<close> and at the example runner.\<close>

theorem template_path_witness:
  "getTemplatePath ((example_host [])\<lparr>RUNNER_TEMP := None\<rparr>) world0
     = (Inl (Error ''Unable to create temp directory.''), world0)
   \<and> getTemplatePath (example_host []) world0
     = (Inr ''/home/runner/work/_temp/baked-template-1600000000000.yaml'',
        world0\<lparr>clock_reads := 1\<rparr>)"
proof -
  have a: "getTemplatePath ((example_host [])\<lparr>RUNNER_TEMP := None\<rparr>) world0
     = (Inl (Error ''Unable to create temp directory.''), world0)"
    using template_path [of "(example_host [])\<lparr>RUNNER_TEMP := None\<rparr>" world0 "[]" "[]"]
    by (simp add: example_host_def)
  have b: "getTemplatePath (example_host []) world0
     = (Inr ''/home/runner/work/_temp/baked-template-1600000000000.yaml'',
        world0\<lparr>clock_reads := 1\<rparr>)"
    using template_path [of "example_host []" world0 "''/home/runner/work/_temp''"
        "[''home'', ''runner'', ''work'', ''_temp'']"]
    by (simp add: example_host_def world0_def plain_segment_def baked_template_name_def
        toString_digit toString_more digit_char_def)
  from a b show ?thesis by blast
qed

text \<open>
  Claim C7 says that any two calls of \<open>getTemplatePath\<close> in one run return distinct
  paths, also when they fall in the same tick of the clock. The code has no counter: on
  a runner whose clock stands at the same millisecond for both calls, the two paths are
  the same.
\<close>

theorem same_tick_same_path:
  "twoTemplatePaths (example_host []) world0
     = (Inr (''/home/runner/work/_temp/baked-template-1600000000000.yaml'',
             ''/home/runner/work/_temp/baked-template-1600000000000.yaml''),
        world0\<lparr>clock_reads := 2\<rparr>)"
  by (simp add: twoTemplatePaths_def eval_simps)

text \<open>
  Claim C7 as amended. Two calls of \<open>getTemplatePath\<close> in one run, with the scratch
  directory \<open>d\<close> set, return \<^verbatim>\<open>path.join\<close> of \<open>d\<close> and the file names of the two clock
  readings, each a single path segment under \<open>d\<close>; the two paths are distinct exactly
  when the two clock readings differ.
\<close>

theorem two_template_paths:
  assumes "RUNNER_TEMP h = Some d" and "d \<noteq> []"
  shows "twoTemplatePaths h w =
           (Inr (path_join d (baked_template_name (getCurrentTime h (clock_reads w))),
                 path_join d (baked_template_name (getCurrentTime h (Suc (clock_reads w))))),
            w\<lparr>clock_reads := Suc (Suc (clock_reads w))\<rparr>)
         \<and> plain_segment (baked_template_name (getCurrentTime h (clock_reads w)))
         \<and> plain_segment (baked_template_name (getCurrentTime h (Suc (clock_reads w))))
         \<and> (path_join d (baked_template_name (getCurrentTime h (clock_reads w)))
              = path_join d (baked_template_name (getCurrentTime h (Suc (clock_reads w))))
             \<longleftrightarrow> getCurrentTime h (clock_reads w) = getCurrentTime h (Suc (clock_reads w)))"
proof -
  have two: "twoTemplatePaths h w =
           (Inr (path_join d (baked_template_name (getCurrentTime h (clock_reads w))),
                 path_join d (baked_template_name (getCurrentTime h (Suc (clock_reads w))))),
            w\<lparr>clock_reads := Suc (Suc (clock_reads w))\<rparr>)"
    using assms
    by (simp add: twoTemplatePaths_def bindA_def ret_def getTemplatePath_present)
  have inj: "path_join d (baked_template_name a) = path_join d (baked_template_name b) \<longleftrightarrow> a = b"
    for a b
    using path_join_inj [OF assms(2) baked_template_name_plain baked_template_name_plain, of a b]
    by (simp add: baked_template_name_inj)
  from two inj baked_template_name_plain show ?thesis by blast
qed

text \<open>The theorem at a runner whose clock advances by a millisecond between the calls.\<close>

theorem two_template_paths_witness:
  "twoTemplatePaths ((example_host [])\<lparr>getCurrentTime := (\<lambda>k. 1600000000000 + k)\<rparr>) world0
     = (Inr (''/home/runner/work/_temp/baked-template-1600000000000.yaml'',
             ''/home/runner/work/_temp/baked-template-1600000000001.yaml''),
        world0\<lparr>clock_reads := 2\<rparr>)"
  using two_template_paths [of "(example_host [])\<lparr>getCurrentTime := (\<lambda>k. 1600000000000 + k)\<rparr>"
      "''/home/runner/work/_temp''" world0]
  by (simp add: example_host_def world0_def baked_template_name_def
      path_join_def normalize_def normalizeString_def normalize_step_def
      toString_digit toString_more digit_char_def Let_def)

end
